theory Spec2Isabelle
  imports Main "HOL-Library.Word"
begin

section \<open>Go library functions used by \<^verbatim>\<open>xray/stats.go\<close>\<close>

text \<open>
  A Go \<^verbatim>\<open>string\<close> is a sequence of bytes; it is modelled as a \<^typ>\<open>string\<close>
  (a list of \<^typ>\<open>char\<close>, one per byte). \<^verbatim>\<open>int64\<close> is a 64-bit word read in two's
  complement by \<^const>\<open>sint\<close>.
\<close>

type_synonym int64 = "64 word"

subsection \<open>\<^verbatim>\<open>strings.Contains\<close>\<close>

fun HasPrefix :: "string \<Rightarrow> string \<Rightarrow> bool" where
  "HasPrefix s [] = True"
| "HasPrefix [] (p # ps) = False"
| "HasPrefix (c # s) (p # ps) = (c = p \<and> HasPrefix s ps)"

text \<open>\<^verbatim>\<open>strings.Contains(s, substr)\<close>: some position of \<open>s\<close> starts with \<open>substr\<close>.\<close>

fun Contains :: "string \<Rightarrow> string \<Rightarrow> bool" where
  "Contains [] substr = (substr = [])"
| "Contains (c # s) substr = (HasPrefix (c # s) substr \<or> Contains s substr)"

subsection \<open>\<^verbatim>\<open>strings.TrimSpace\<close>\<close>

text \<open>
  \<^verbatim>\<open>strings.TrimSpace\<close> removes the leading and the trailing white space
  ``as defined by Unicode'' (\<^verbatim>\<open>unicode.IsSpace\<close>), decoding the bytes as UTF-8. The
  white-space code points are U+0009..U+000D and U+0020 (one byte each), U+0085 and
  U+00A0 (two bytes), U+1680, U+2000..U+200A, U+2028, U+2029, U+202F, U+205F and
  U+3000 (three bytes). An invalid byte decodes to U+FFFD, which is no white space, so
  a rune is trimmed exactly when the bytes at that end are one of these encodings.
\<close>

definition asciiSpace :: "char \<Rightarrow> bool" where
  "asciiSpace c \<longleftrightarrow>
     c \<in> set [CHR 0x09, CHR 0x0A, CHR 0x0B, CHR 0x0C, CHR 0x0D, CHR 0x20]"

definition spaceRunes :: "string list" where
  "spaceRunes =
     [[CHR 0xC2, CHR 0x85], [CHR 0xC2, CHR 0xA0], [CHR 0xE1, CHR 0x9A, CHR 0x80]] @
     map (\<lambda>b. [CHR 0xE2, CHR 0x80, b])
       [CHR 0x80, CHR 0x81, CHR 0x82, CHR 0x83, CHR 0x84, CHR 0x85, CHR 0x86, CHR 0x87,
        CHR 0x88, CHR 0x89, CHR 0x8A, CHR 0xA8, CHR 0xA9, CHR 0xAF] @
     [[CHR 0xE2, CHR 0x81, CHR 0x9F], [CHR 0xE3, CHR 0x80, CHR 0x80]]"

text \<open>The width in bytes of the white-space rune that \<open>s\<close> starts with; 0 when the
  first rune is no white space or \<open>s\<close> is empty.\<close>

definition leadingSpace :: "string \<Rightarrow> nat" where
  "leadingSpace s =
     (case s of
        [] \<Rightarrow> 0
      | c # _ \<Rightarrow>
          if asciiSpace c then 1
          else if take 2 s \<in> set spaceRunes then 2
          else if take 3 s \<in> set spaceRunes then 3
          else 0)"

text \<open>The same for the rune that \<open>s\<close> ends with (\<^verbatim>\<open>utf8.DecodeLastRuneInString\<close>).\<close>

definition trailingSpace :: "string \<Rightarrow> nat" where
  "trailingSpace s =
     (if s = [] then 0
      else if asciiSpace (last s) then 1
      else if drop (length s - 2) s \<in> set spaceRunes then 2
      else if drop (length s - 3) s \<in> set spaceRunes then 3
      else 0)"

function TrimLeft :: "string \<Rightarrow> string" where
  "TrimLeft s = (if leadingSpace s = 0 then s else TrimLeft (drop (leadingSpace s) s))"
  by pat_completeness auto
termination
proof (relation "measure length")
  fix s :: string
  assume w: "leadingSpace s \<noteq> 0"
  then have "s \<noteq> []"
    by (auto simp: leadingSpace_def)
  with w show "(drop (leadingSpace s) s, s) \<in> measure length"
    by simp
qed simp

function TrimRight :: "string \<Rightarrow> string" where
  "TrimRight s =
     (if trailingSpace s = 0 then s else TrimRight (take (length s - trailingSpace s) s))"
  by pat_completeness auto
termination
proof (relation "measure length")
  fix s :: string
  assume w: "trailingSpace s \<noteq> 0"
  then have "s \<noteq> []"
    by (auto simp: trailingSpace_def)
  with w show "(take (length s - trailingSpace s) s, s) \<in> measure length"
    by simp
qed simp

declare TrimLeft.simps [simp del] TrimRight.simps [simp del]

text \<open>\<^verbatim>\<open>TrimFunc(s, f) = TrimRightFunc(TrimLeftFunc(s, f), f)\<close>.\<close>

definition TrimSpace :: "string \<Rightarrow> string" where
  "TrimSpace s = TrimRight (TrimLeft s)"

subsection \<open>\<^verbatim>\<open>fmt.Sprintf\<close>, \<^verbatim>\<open>strconv\<close> and \<^verbatim>\<open>encoding/json\<close>\<close>

text \<open>
  \<^verbatim>\<open>fmt.Sprintf(format, arg)\<close> for a format holding one \<^verbatim>\<open>%s\<close> verb and one
  string operand, which is how the source calls it: the bytes of the format are
  copied, and the operand is written, unchanged, in place of the verb.
\<close>

fun Sprintf :: "string \<Rightarrow> string \<Rightarrow> string" where
  "Sprintf [] arg = []"
| "Sprintf [c] arg = [c]"
| "Sprintf (c # v # rest) arg =
     (if c = CHR ''%'' \<and> v = CHR ''s'' then arg @ rest else c # Sprintf (v # rest) arg)"

definition digit :: "nat \<Rightarrow> char" where
  "digit n = ''0123456789'' ! n"

fun digits :: "nat \<Rightarrow> string" where
  "digits n = (if n < 10 then [digit n] else digits (n div 10) @ [digit (n mod 10)])"

declare digits.simps [simp del]

text \<open>\<^verbatim>\<open>strconv.FormatInt(i, 10)\<close>, which \<^verbatim>\<open>encoding/json\<close> uses for integer fields.\<close>

definition FormatInt :: "int \<Rightarrow> string" where
  "FormatInt i = (if i < 0 then CHR ''-'' # digits (nat (- i)) else digits (nat i))"

text \<open>
  The anonymous struct \<^verbatim>\<open>out\<close> of \<^verbatim>\<open>queryStatsInProcess\<close>, with its JSON field names
  \<^verbatim>\<open>uplink\<close> and \<^verbatim>\<open>downlink\<close>.
\<close>

record out =
  Uplink :: int64
  Downlink :: int64

definition jsonField :: "string \<Rightarrow> int64 \<Rightarrow> string" where
  "jsonField name v = [CHR 0x22] @ name @ [CHR 0x22] @ '':'' @ FormatInt (sint v)"

text \<open>
  \<^verbatim>\<open>json.Marshal(out)\<close>: the fields in declaration order, compact. The left summand is
  the \<^verbatim>\<open>err\<close> result, which a struct of two integers never produces.
\<close>

definition json_Marshal :: "out \<Rightarrow> string + string" where
  "json_Marshal v =
     Inr (''{'' @ jsonField ''uplink'' (Uplink v) @ '','' @
          jsonField ''downlink'' (Downlink v) @ ''}'')"

section \<open>The host runtime and the network\<close>

text \<open>
  The collaborators of \<^verbatim>\<open>xray/stats.go\<close>: the package variable \<^verbatim>\<open>coreServer\<close> (a
  \<^verbatim>\<open>*core.Instance\<close>, possibly \<^verbatim>\<open>nil\<close>), the feature it returns for
  \<^verbatim>\<open>corestats.ManagerType()\<close>, the counters of a \<^verbatim>\<open>corestats.Manager\<close>, and the
  network behind \<^verbatim>\<open>http.Get\<close>. A \<^verbatim>\<open>nil\<close> result is \<^const>\<open>None\<close>.
\<close>

datatype counter = Counter (Value: int64)

text \<open>
  A registered feature either satisfies \<^verbatim>\<open>corestats.Manager\<close>, and then answers
  \<^verbatim>\<open>GetCounter(name)\<close>, or it does not (the type assertion of line 58 fails).
\<close>

datatype feature = Manager (GetCounter: "string \<Rightarrow> counter option") | NotManager

record core_Instance =
  IsRunning :: bool
  GetFeature :: "feature option"

text \<open>
  An \<^verbatim>\<open>*http.Response\<close>: its status code, and what \<^verbatim>\<open>io.ReadAll(resp.Body)\<close> gives,
  the read error (left) or all the bytes of the body (right).
\<close>

record response =
  StatusCode :: int
  Body :: "string + string"

text \<open>\<^verbatim>\<open>http_Get url\<close> is the outcome of \<^verbatim>\<open>http.Get(url)\<close>: the error (left) or the
  response.\<close>

record world =
  coreServer :: "core_Instance option"
  http_Get :: "string \<Rightarrow> string + response"

text \<open>
  The errors the two paths return. The first four are the \<^verbatim>\<open>fmt.Errorf\<close> values of
  lines 49, 52, 56 and 60; \<open>TransportError\<close> carries the \<^verbatim>\<open>err\<close> of \<^verbatim>\<open>http.Get\<close> or
  \<^verbatim>\<open>io.ReadAll\<close> (lines 35 and 40), \<open>EncodingError\<close> that of \<^verbatim>\<open>json.Marshal\<close>
  (line 77). \<open>Error\<close> is the message of each, as \<^verbatim>\<open>err.Error()\<close> gives it.
\<close>

datatype error =
    InvalidArgument
  | NotRunning
  | FeatureUnavailable
  | TypeMismatch
  | TransportError string
  | EncodingError string

fun Error :: "error \<Rightarrow> string" where
  "Error InvalidArgument = ''stats tag is empty''"
| "Error NotRunning = ''core not running''"
| "Error FeatureUnavailable = ''stats not enabled in config''"
| "Error TypeMismatch = ''stats manager type mismatch''"
| "Error (TransportError cause) = cause"
| "Error (EncodingError cause) = cause"

text \<open>
  Every call a function makes on a collaborator is recorded, in order. \<open>CallSet\<close> and
  \<open>CallAdd\<close> are the two writing methods of the \<^verbatim>\<open>Counter\<close> interface
  (\<^verbatim>\<open>Set(int64)\<close>, \<^verbatim>\<open>Add(int64)\<close>); the others read.
\<close>

datatype call =
    CallIsRunning
  | CallGetFeature
  | CallGetCounter string
  | CallValue string
  | CallSet string int64
  | CallAdd string int64
  | CallHTTPGet string
  | CallReadAll
  | CallClose

type_synonym result = "(error + string) \<times> call list"

section \<open>\<^verbatim>\<open>xray/stats.go\<close>\<close>

definition queryStatsHTTP :: "world \<Rightarrow> string \<Rightarrow> result" where
  "queryStatsHTTP w server =
     (case http_Get w server of
        Inl err \<Rightarrow> (Inl (TransportError err), [CallHTTPGet server])
      | Inr resp \<Rightarrow>
          (case Body resp of
             Inl err \<Rightarrow>
               (Inl (TransportError err), [CallHTTPGet server, CallReadAll, CallClose])
           | Inr body \<Rightarrow>
               (Inr body, [CallHTTPGet server, CallReadAll, CallClose])))"

definition upKey :: "string \<Rightarrow> string" where
  "upKey tag = Sprintf ''outbound>>>%s>>>traffic>>>uplink'' tag"

definition downKey :: "string \<Rightarrow> string" where
  "downKey tag = Sprintf ''outbound>>>%s>>>traffic>>>downlink'' tag"

definition queryStatsInProcess :: "world \<Rightarrow> string \<Rightarrow> result" where
  "queryStatsInProcess w tag =
     (if tag = [] then (Inl InvalidArgument, [])
      else case coreServer w of
        None \<Rightarrow> (Inl NotRunning, [])
      | Some srv \<Rightarrow>
          if \<not> IsRunning srv then (Inl NotRunning, [CallIsRunning])
          else (case GetFeature srv of
             None \<Rightarrow> (Inl FeatureUnavailable, [CallIsRunning, CallGetFeature])
           | Some NotManager \<Rightarrow> (Inl TypeMismatch, [CallIsRunning, CallGetFeature])
           | Some (Manager manager) \<Rightarrow>
               (let upCounter = manager (upKey tag);
                    downCounter = manager (downKey tag);
                    uplink = (case upCounter of None \<Rightarrow> 0 | Some c \<Rightarrow> Value c);
                    downlink = (case downCounter of None \<Rightarrow> 0 | Some c \<Rightarrow> Value c);
                    calls =
                      [CallIsRunning, CallGetFeature,
                       CallGetCounter (upKey tag), CallGetCounter (downKey tag)] @
                      (if upCounter \<noteq> None then [CallValue (upKey tag)] else []) @
                      (if downCounter \<noteq> None then [CallValue (downKey tag)] else [])
                in case json_Marshal \<lparr>Uplink = uplink, Downlink = downlink\<rparr> of
                     Inl err \<Rightarrow> (Inl (EncodingError err), calls)
                   | Inr raw \<Rightarrow> (Inr raw, calls))))"

definition QueryStats :: "world \<Rightarrow> string \<Rightarrow> result" where
  "QueryStats w server =
     (if Contains server ''://'' then queryStatsHTTP w server
      else queryStatsInProcess w (TrimSpace server))"

definition QueryStatsByTag :: "world \<Rightarrow> string \<Rightarrow> result" where
  "QueryStatsByTag w tag = queryStatsInProcess w (TrimSpace tag)"

subsection \<open>The effect of the recorded calls on the runtime\<close>

text \<open>
  Reading calls leave the world as it is. \<^verbatim>\<open>Set\<close> and \<^verbatim>\<open>Add\<close> change the value of a
  registered counter.
\<close>

definition updateCounter :: "string \<Rightarrow> (int64 \<Rightarrow> int64) \<Rightarrow> world \<Rightarrow> world" where
  "updateCounter name f w =
     (case coreServer w of
        Some srv \<Rightarrow>
          (case GetFeature srv of
             Some (Manager manager) \<Rightarrow>
               (case manager name of
                  Some c \<Rightarrow>
                    w\<lparr>coreServer := Some (srv\<lparr>GetFeature :=
                         Some (Manager (manager(name \<mapsto> Counter (f (Value c)))))\<rparr>)\<rparr>
                | None \<Rightarrow> w)
           | _ \<Rightarrow> w)
      | None \<Rightarrow> w)"

fun exec :: "call \<Rightarrow> world \<Rightarrow> world" where
  "exec (CallSet name v) w = updateCounter name (\<lambda>_. v) w"
| "exec (CallAdd name v) w = updateCounter name (\<lambda>x. x + v) w"
| "exec _ w = w"

text \<open>The world a query leaves behind, and two queries one after the other.\<close>

definition after :: "world \<Rightarrow> result \<Rightarrow> world" where
  "after w r = fold exec (snd r) w"

definition twice :: "(world \<Rightarrow> string \<Rightarrow> result) \<Rightarrow> world \<Rightarrow> string \<Rightarrow>
    (error + string) \<times> (error + string) \<times> world" where
  "twice query w tag =
     (let r1 = query w tag; w1 = after w r1;
          r2 = query w1 tag; w2 = after w1 r2
      in (fst r1, fst r2, w2))"

subsection \<open>Reading the record of calls\<close>

text \<open>The registry keys passed to \<^verbatim>\<open>GetCounter\<close>, in the order of the calls.\<close>

fun lookups :: "call list \<Rightarrow> string list" where
  "lookups [] = []"
| "lookups (CallGetCounter name # cs) = name # lookups cs"
| "lookups (_ # cs) = lookups cs"

fun writes :: "call \<Rightarrow> bool" where
  "writes (CallSet _ _) = True"
| "writes (CallAdd _ _) = True"
| "writes _ = False"

text \<open>The calls of the HTTP path, and those made on the host runtime.\<close>

fun httpCall :: "call \<Rightarrow> bool" where
  "httpCall (CallHTTPGet _) = True"
| "httpCall CallReadAll = True"
| "httpCall CallClose = True"
| "httpCall _ = False"

definition coreCall :: "call \<Rightarrow> bool" where
  "coreCall c = (\<not> httpCall c)"

subsection \<open>Example worlds\<close>

text \<open>
  A small network: a metrics endpoint, a missing page, a failing page, a body that
  breaks off while it is read, and no other host.
\<close>

definition network :: "string \<Rightarrow> string + response" where
  "network url =
     (if url = ''http://example.test/debug/vars''
        then Inr \<lparr>StatusCode = 200, Body = Inr ''foo=1''\<rparr>
      else if url = ''http://example.test/missing''
        then Inr \<lparr>StatusCode = 404, Body = Inr ''404 page not found''\<rparr>
      else if url = ''http://example.test/crash''
        then Inr \<lparr>StatusCode = 500, Body = Inr ''internal error''\<rparr>
      else if url = ''http://example.test/cut''
        then Inr \<lparr>StatusCode = 200, Body = Inl ''unexpected EOF''\<rparr>
      else Inl ''no such host'')"

text \<open>A core instance with the given running flag and stats feature, on that network;
  and the world before any instance was created.\<close>

definition core :: "bool \<Rightarrow> feature option \<Rightarrow> world" where
  "core running f =
     \<lparr>coreServer = Some \<lparr>IsRunning = running, GetFeature = f\<rparr>, http_Get = network\<rparr>"

definition noCore :: world where
  "noCore = \<lparr>coreServer = None, http_Get = network\<rparr>"

text \<open>The counters of a manager, from the list of their names and values.\<close>

definition counters :: "(string \<times> int64) list \<Rightarrow> string \<Rightarrow> counter option" where
  "counters kvs name = map_option Counter (map_of kvs name)"

section \<open>Properties of the library functions\<close>

lemma HasPrefix_iff: "HasPrefix s p \<longleftrightarrow> (\<exists>q. s = p @ q)"
  by (induction s p rule: HasPrefix.induct) auto

lemma Contains_iff: "Contains s sub \<longleftrightarrow> (\<exists>p q. s = p @ sub @ q)"
proof (induction s)
  case Nil
  show ?case by auto
next
  case (Cons c s)
  have "(\<exists>p q. c # s = p @ sub @ q) \<longleftrightarrow>
        (\<exists>q. c # s = sub @ q) \<or> (\<exists>p q. s = p @ sub @ q)"
  proof
    assume "\<exists>p q. c # s = p @ sub @ q"
    then obtain p q where e: "c # s = p @ sub @ q" by blast
    show "(\<exists>q. c # s = sub @ q) \<or> (\<exists>p q. s = p @ sub @ q)"
    proof (cases p)
      case Nil
      with e show ?thesis by auto
    next
      case (Cons a p')
      with e have "s = p' @ sub @ q" by simp
      then show ?thesis by blast
    qed
  next
    assume "(\<exists>q. c # s = sub @ q) \<or> (\<exists>p q. s = p @ sub @ q)"
    then show "\<exists>p q. c # s = p @ sub @ q"
    proof
      assume "\<exists>q. c # s = sub @ q"
      then obtain q where "c # s = [] @ sub @ q" by auto
      then show ?thesis by blast
    next
      assume "\<exists>p q. s = p @ sub @ q"
      then obtain p q where "s = p @ sub @ q" by blast
      then have "c # s = (c # p) @ sub @ q" by simp
      then show ?thesis by blast
    qed
  qed
  with Cons.IH show ?case by (simp add: HasPrefix_iff)
qed

lemma upKey_eq: "upKey t = ''outbound>>>'' @ t @ ''>>>traffic>>>uplink''"
  by (simp add: upKey_def)

lemma downKey_eq: "downKey t = ''outbound>>>'' @ t @ ''>>>traffic>>>downlink''"
  by (simp add: downKey_def)

lemma json_Marshal_eq:
  \<open>json_Marshal \<lparr>Uplink = u, Downlink = d\<rparr> =
     Inr (''{"uplink":'' @ FormatInt (sint u) @ '',"downlink":'' @ FormatInt (sint d) @ ''}'')\<close>
  by (simp add: json_Marshal_def jsonField_def)

lemma FormatInt_0: "FormatInt 0 = ''0''"
  by (simp add: FormatInt_def digits.simps digit_def)

lemma digit_decimal: "n < 10 \<Longrightarrow> digit n \<in> set ''0123456789''"
  unfolding digit_def by (rule nth_mem) simp

lemma digits_decimal: "set (digits n) \<subseteq> set ''0123456789''"
proof (induction n rule: digits.induct)
  case (1 n)
  show ?case
  proof (cases "n < 10")
    case True
    then show ?thesis using digit_decimal [of n] by (subst digits.simps) simp
  next
    case False
    have "n mod 10 < 10" by simp
    then have "digit (n mod 10) \<in> set ''0123456789''" by (rule digit_decimal)
    with False "1.IH" show ?thesis by (subst digits.simps) simp
  qed
qed

lemma FormatInt_decimal: "0 \<le> i \<Longrightarrow> set (FormatInt i) \<subseteq> set ''0123456789''"
  using digits_decimal [of "nat i"] by (simp add: FormatInt_def)

lemma TrimSpace_Nil: "TrimSpace [] = []"
  by (simp add: TrimSpace_def TrimLeft.simps TrimRight.simps leadingSpace_def trailingSpace_def)

lemma TrimSpace_id: "leadingSpace s = 0 \<Longrightarrow> trailingSpace s = 0 \<Longrightarrow> TrimSpace s = s"
  by (simp add: TrimSpace_def TrimLeft.simps TrimRight.simps)

lemma TrimSpace_blank: "TrimSpace ''   '' = []"
  by (simp add: TrimSpace_def TrimLeft.simps TrimRight.simps leadingSpace_def
      trailingSpace_def asciiSpace_def)

lemma TrimSpace_proxy: "TrimSpace ''proxy'' = ''proxy''"
  by (simp add: TrimSpace_def TrimLeft.simps TrimRight.simps leadingSpace_def
      trailingSpace_def asciiSpace_def spaceRunes_def)

text \<open>
  What \<^verbatim>\<open>TrimSpace\<close> returns is a piece of its argument, with no white space left at
  either end.
\<close>

lemma leadingSpace_TrimLeft: "leadingSpace (TrimLeft s) = 0"
proof (induction s rule: TrimLeft.induct)
  case (1 s)
  then show ?case by (subst TrimLeft.simps) simp
qed

lemma trailingSpace_TrimRight: "trailingSpace (TrimRight s) = 0"
proof (induction s rule: TrimRight.induct)
  case (1 s)
  then show ?case by (subst TrimRight.simps) simp
qed

lemma TrimLeft_drop: "\<exists>n. TrimLeft s = drop n s"
proof (induction s rule: TrimLeft.induct)
  case (1 s)
  show ?case
  proof (cases "leadingSpace s = 0")
    case True
    then have "TrimLeft s = drop 0 s" by (subst TrimLeft.simps) simp
    then show ?thesis by blast
  next
    case False
    with "1.IH" obtain n where "TrimLeft (drop (leadingSpace s) s) = drop n (drop (leadingSpace s) s)"
      by blast
    with False have "TrimLeft s = drop (n + leadingSpace s) s"
      by (subst TrimLeft.simps) (simp add: add.commute)
    then show ?thesis by blast
  qed
qed

lemma TrimRight_take: "\<exists>n. TrimRight s = take n s"
proof (induction s rule: TrimRight.induct)
  case (1 s)
  show ?case
  proof (cases "trailingSpace s = 0")
    case True
    then have "TrimRight s = take (length s) s" by (subst TrimRight.simps) simp
    then show ?thesis by blast
  next
    case False
    with "1.IH" obtain n where
      "TrimRight (take (length s - trailingSpace s) s) = take n (take (length s - trailingSpace s) s)"
      by blast
    with False have "TrimRight s = take (min n (length s - trailingSpace s)) s"
      by (subst TrimRight.simps) simp
    then show ?thesis by blast
  qed
qed

lemma spaceRunes_length: "r \<in> set spaceRunes \<Longrightarrow> length r = 2 \<or> length r = 3"
  by (auto simp: spaceRunes_def)

lemma leadingSpace_take:
  assumes "leadingSpace s = 0"
  shows "leadingSpace (take n s) = 0"
proof (cases "take n s")
  case Nil
  then show ?thesis by (simp only: leadingSpace_def list.case)
next
  case (Cons c r)
  then obtain s' where s: "s = c # s'"
    by (cases s; cases n) auto
  from assms s have c: "\<not> asciiSpace c"
    and two: "take 2 s \<notin> set spaceRunes" and three: "take 3 s \<notin> set spaceRunes"
    by (auto simp: leadingSpace_def split: if_splits)
  have no2: "take 2 (take n s) \<notin> set spaceRunes"
  proof
    assume m: "take 2 (take n s) \<in> set spaceRunes"
    from spaceRunes_length [OF m] have "2 \<le> n"
      by (auto simp: min_def split: if_splits)
    then have "take 2 (take n s) = take 2 s"
      by (simp add: min_def)
    with m two show False by simp
  qed
  have no3: "take 3 (take n s) \<notin> set spaceRunes"
  proof
    assume m: "take 3 (take n s) \<in> set spaceRunes"
    from spaceRunes_length [OF m] have n: "2 \<le> n"
      by (auto simp: min_def split: if_splits)
    show False
    proof (cases "n = 2")
      case True
      then have "take 3 (take n s) = take 2 s"
        by (simp add: min_def)
      with m two show False by simp
    next
      case False
      with n have "take 3 (take n s) = take 3 s"
        by (simp add: min_def)
      with m three show False by simp
    qed
  qed
  from Cons c no2 no3 show ?thesis
    by (simp add: leadingSpace_def)
qed

lemma TrimSpace_trimmed: "leadingSpace (TrimSpace s) = 0 \<and> trailingSpace (TrimSpace s) = 0"
proof -
  obtain n where "TrimRight (TrimLeft s) = take n (TrimLeft s)"
    using TrimRight_take by blast
  then have "leadingSpace (TrimSpace s) = 0"
    by (simp add: TrimSpace_def leadingSpace_take leadingSpace_TrimLeft)
  then show ?thesis
    by (simp add: TrimSpace_def trailingSpace_TrimRight)
qed

lemma TrimSpace_within: "\<exists>pre post. s = pre @ TrimSpace s @ post"
proof -
  obtain n where n: "TrimLeft s = drop n s"
    using TrimLeft_drop by blast
  obtain k where k: "TrimRight (drop n s) = take k (drop n s)"
    using TrimRight_take by blast
  have "s = take n s @ drop n s"
    by (simp only: append_take_drop_id)
  also have "drop n s = take k (drop n s) @ drop k (drop n s)"
    by (simp only: append_take_drop_id)
  finally have "s = take n s @ TrimSpace s @ drop k (drop n s)"
    by (simp only: TrimSpace_def n k)
  then show ?thesis by blast
qed

text \<open>Some identifiers with white space around them, ASCII and not.\<close>

lemma TrimSpace_padded: "TrimSpace '' proxy  '' = ''proxy''"
  by (simp add: TrimSpace_def TrimLeft.simps TrimRight.simps leadingSpace_def
      trailingSpace_def asciiSpace_def spaceRunes_def)

lemma TrimSpace_unicode:
  "TrimSpace ([CHR 0x09, CHR 0xC2, CHR 0xA0] @ ''proxy'' @ [CHR 0xE3, CHR 0x80, CHR 0x80, CHR 0x0A]) =
     ''proxy''"
  by (simp add: TrimSpace_def TrimLeft.simps TrimRight.simps leadingSpace_def
      trailingSpace_def asciiSpace_def spaceRunes_def)

lemma TrimSpace_padded_url: "TrimSpace '' a://b '' = ''a://b''"
  by (simp add: TrimSpace_def TrimLeft.simps TrimRight.simps leadingSpace_def
      trailingSpace_def asciiSpace_def spaceRunes_def)

lemma TrimSpace_inner: "TrimSpace '' my proxy '' = ''my proxy''"
  by (simp add: TrimSpace_def TrimLeft.simps TrimRight.simps leadingSpace_def
      trailingSpace_def asciiSpace_def spaceRunes_def)

lemma TrimSpace_url_padded:
  "TrimSpace ''http://example.test/debug/vars '' = ''http://example.test/debug/vars''"
  by (simp add: TrimSpace_def TrimLeft.simps TrimRight.simps leadingSpace_def
      trailingSpace_def asciiSpace_def spaceRunes_def)

section \<open>Properties of the two paths\<close>

text \<open>The in-process path once the four checks have passed (lines 62 to 79).\<close>

lemma queryStatsInProcess_ready:
  assumes "t \<noteq> []" "coreServer w = Some srv" "IsRunning srv"
    "GetFeature srv = Some (Manager m)"
  shows \<open>queryStatsInProcess w t =
    (Inr (''{"uplink":'' @ FormatInt (sint (case m (upKey t) of None \<Rightarrow> 0 | Some c \<Rightarrow> Value c)) @
          '',"downlink":'' @ FormatInt (sint (case m (downKey t) of None \<Rightarrow> 0 | Some c \<Rightarrow> Value c)) @ ''}''),
     [CallIsRunning, CallGetFeature, CallGetCounter (upKey t), CallGetCounter (downKey t)] @
     (if m (upKey t) \<noteq> None then [CallValue (upKey t)] else []) @
     (if m (downKey t) \<noteq> None then [CallValue (downKey t)] else []))\<close>
  using assms by (simp add: queryStatsInProcess_def Let_def json_Marshal_eq)

lemma QueryStats_tag:
  "\<not> Contains s ''://'' \<Longrightarrow> QueryStats w s = queryStatsInProcess w (TrimSpace s)"
  by (simp add: QueryStats_def)

lemma QueryStats_url: "Contains s ''://'' \<Longrightarrow> QueryStats w s = queryStatsHTTP w s"
  by (simp add: QueryStats_def)

text \<open>What each path calls: the in-process path neither touches the network nor
  writes; the HTTP path starts with the GET of the identifier as it was given and asks
  the runtime nothing.\<close>

lemma queryStatsInProcess_calls:
  "filter httpCall (snd (queryStatsInProcess w t)) = [] \<and>
   filter writes (snd (queryStatsInProcess w t)) = []"
  by (simp add: queryStatsInProcess_def Let_def json_Marshal_eq
      split: option.splits feature.splits)

lemma queryStatsHTTP_calls:
  "(\<exists>rest. snd (queryStatsHTTP w s) = CallHTTPGet s # rest) \<and>
   filter coreCall (snd (queryStatsHTTP w s)) = []"
  by (simp add: queryStatsHTTP_def coreCall_def split: sum.splits)

lemma fold_exec_reads: "filter writes calls = [] \<Longrightarrow> fold exec calls w = w"
proof (induction calls)
  case Nil
  show ?case by simp
next
  case (Cons c calls)
  from Cons.prems have c: "\<not> writes c" and rest: "filter writes calls = []"
    by (auto split: if_splits)
  from c have "exec c w = w"
    by (cases c) simp_all
  with Cons.IH [OF rest] show ?case by simp
qed

lemma after_queryStatsInProcess: "after w (queryStatsInProcess w t) = w"
  by (simp add: after_def fold_exec_reads queryStatsInProcess_calls)

lemma twice_queryStatsInProcess:
  "twice queryStatsInProcess w t =
     (fst (queryStatsInProcess w t), fst (queryStatsInProcess w t), w)"
  by (simp add: twice_def Let_def after_queryStatsInProcess)

text \<open>The record of calls tells a write from a read: had the query reset the uplink
  counter, the next query would return 0 for it.\<close>

lemma exec_Set_observed:
  \<open>fst (queryStatsInProcess
      (exec (CallSet ''outbound>>>proxy>>>traffic>>>uplink'' 0)
        (core True (Some (Manager (counters
          [(''outbound>>>proxy>>>traffic>>>uplink'', 1500),
           (''outbound>>>proxy>>>traffic>>>downlink'', 98000)]))))) ''proxy'') =
     Inr ''{"uplink":0,"downlink":98000}''\<close>
  by (simp add: updateCounter_def queryStatsInProcess_def core_def counters_def
      upKey_def downKey_def json_Marshal_eq FormatInt_def digits.simps digit_def)

section \<open>Properties of the statistics query\<close>

text \<open>
  C1: for every non-empty tag \<open>t\<close>, that is an identifier without \<^verbatim>\<open>://\<close> that is not
  empty after trimming white space, if the runtime is running, the stats feature is a
  manager, and the registry holds the counters of both directions of the tag (as the
  in-process path receives it, trimmed) with values \<open>u\<close> and \<open>d\<close>, both at least 0, then
  \<^verbatim>\<open>QueryStats\<close> succeeds with exactly \<^verbatim>\<open>{"uplink":u,"downlink":d}\<close>: the field
  \<^verbatim>\<open>uplink\<close> first, \<^verbatim>\<open>downlink\<close> second, each value written as a run of decimal
  digits.
\<close>

theorem both_counters_payload:
  assumes "\<not> Contains t ''://''" "TrimSpace t \<noteq> []"
    and "coreServer w = Some srv" "IsRunning srv" "GetFeature srv = Some (Manager m)"
    and "m (''outbound>>>'' @ TrimSpace t @ ''>>>traffic>>>uplink'') = Some (Counter u)"
    and "m (''outbound>>>'' @ TrimSpace t @ ''>>>traffic>>>downlink'') = Some (Counter d)"
    and "0 \<le> sint u" "0 \<le> sint d"
  shows \<open>fst (QueryStats w t) =
      Inr (''{"uplink":'' @ FormatInt (sint u) @ '',"downlink":'' @ FormatInt (sint d) @ ''}'') \<and>
    set (FormatInt (sint u)) \<subseteq> set ''0123456789'' \<and>
    set (FormatInt (sint d)) \<subseteq> set ''0123456789''\<close>
proof -
  have up: "m (upKey (TrimSpace t)) = Some (Counter u)"
    using assms(6) by (simp only: upKey_eq)
  have down: "m (downKey (TrimSpace t)) = Some (Counter d)"
    using assms(7) by (simp only: downKey_eq)
  have "QueryStats w t = queryStatsInProcess w (TrimSpace t)"
    using assms(1) by (rule QueryStats_tag)
  then have payload: \<open>fst (QueryStats w t) =
      Inr (''{"uplink":'' @ FormatInt (sint u) @ '',"downlink":'' @ FormatInt (sint d) @ ''}'')\<close>
    by (simp add: queryStatsInProcess_ready [OF assms(2-5)] up down)
  have "set (FormatInt (sint u)) \<subseteq> set ''0123456789''"
    using assms(8) by (rule FormatInt_decimal)
  moreover have "set (FormatInt (sint d)) \<subseteq> set ''0123456789''"
    using assms(9) by (rule FormatInt_decimal)
  ultimately show ?thesis
    using payload by blast
qed

text \<open>The tag \<^verbatim>\<open>proxy\<close>, given with white space around it.\<close>

theorem both_counters_payload_witness:
  \<open>fst (QueryStats
      (core True (Some (Manager (counters
         [(''outbound>>>proxy>>>traffic>>>uplink'', 1500),
          (''outbound>>>proxy>>>traffic>>>downlink'', 98000)]))))
      '' proxy  '') = Inr ''{"uplink":1500,"downlink":98000}''\<close>
  using both_counters_payload [of "'' proxy  ''"
      "core True (Some (Manager (counters
         [(''outbound>>>proxy>>>traffic>>>uplink'', 1500),
          (''outbound>>>proxy>>>traffic>>>downlink'', 98000)])))"
      "\<lparr>IsRunning = True, GetFeature = Some (Manager (counters
         [(''outbound>>>proxy>>>traffic>>>uplink'', 1500),
          (''outbound>>>proxy>>>traffic>>>downlink'', 98000)]))\<rparr>"
      "counters
         [(''outbound>>>proxy>>>traffic>>>uplink'', 1500),
          (''outbound>>>proxy>>>traffic>>>downlink'', 98000)]" 1500 98000]
  by (simp add: core_def counters_def FormatInt_def digits.simps digit_def
      TrimSpace_def TrimLeft.simps TrimRight.simps
      leadingSpace_def trailingSpace_def asciiSpace_def spaceRunes_def)

text \<open>
  C2: the in-process path looks up no registry key other than
  \<^verbatim>\<open>outbound>>>t>>>traffic>>>uplink\<close> and \<^verbatim>\<open>outbound>>>t>>>traffic>>>downlink\<close>, whatever the
  tag \<open>t\<close>. Once the precondition checks have passed it looks up exactly these two, the
  uplink key first; the uplink field of the result is what the registry holds under the
  first key and the downlink field what it holds under the second; and a registry that
  agrees on these two keys gives the same result and the same calls, whatever else it
  holds. For the tag \<^verbatim>\<open>proxy\<close> the keys are \<^verbatim>\<open>outbound>>>proxy>>>traffic>>>uplink\<close> and
  \<^verbatim>\<open>outbound>>>proxy>>>traffic>>>downlink\<close>.
\<close>

theorem lookup_keys:
  \<open>set (lookups (snd (queryStatsInProcess w t))) \<subseteq>
      {''outbound>>>'' @ t @ ''>>>traffic>>>uplink'',
       ''outbound>>>'' @ t @ ''>>>traffic>>>downlink''} \<and>
   (t \<noteq> [] \<and> coreServer w = Some srv \<and> IsRunning srv \<and> GetFeature srv = Some (Manager m) \<longrightarrow>
      lookups (snd (queryStatsInProcess w t)) =
        [''outbound>>>'' @ t @ ''>>>traffic>>>uplink'',
         ''outbound>>>'' @ t @ ''>>>traffic>>>downlink''] \<and>
      fst (queryStatsInProcess w t) =
        Inr (''{"uplink":'' @
             FormatInt (sint (case m (''outbound>>>'' @ t @ ''>>>traffic>>>uplink'') of
                                None \<Rightarrow> 0 | Some c \<Rightarrow> Value c)) @
             '',"downlink":'' @
             FormatInt (sint (case m (''outbound>>>'' @ t @ ''>>>traffic>>>downlink'') of
                                None \<Rightarrow> 0 | Some c \<Rightarrow> Value c)) @
             ''}'') \<and>
      (m' (''outbound>>>'' @ t @ ''>>>traffic>>>uplink'') =
         m (''outbound>>>'' @ t @ ''>>>traffic>>>uplink'') \<and>
       m' (''outbound>>>'' @ t @ ''>>>traffic>>>downlink'') =
         m (''outbound>>>'' @ t @ ''>>>traffic>>>downlink'') \<longrightarrow>
         queryStatsInProcess
           (w\<lparr>coreServer := Some (srv\<lparr>GetFeature := Some (Manager m')\<rparr>)\<rparr>) t =
         queryStatsInProcess w t)) \<and>
   upKey ''proxy'' = ''outbound>>>proxy>>>traffic>>>uplink'' \<and>
   downKey ''proxy'' = ''outbound>>>proxy>>>traffic>>>downlink''\<close>
proof (intro conjI impI)
  show "set (lookups (snd (queryStatsInProcess w t))) \<subseteq>
      {''outbound>>>'' @ t @ ''>>>traffic>>>uplink'',
       ''outbound>>>'' @ t @ ''>>>traffic>>>downlink''}"
    by (auto simp: queryStatsInProcess_def Let_def json_Marshal_eq upKey_eq downKey_eq
        split: option.splits feature.splits)
  show "upKey ''proxy'' = ''outbound>>>proxy>>>traffic>>>uplink''"
    by (simp add: upKey_def)
  show "downKey ''proxy'' = ''outbound>>>proxy>>>traffic>>>downlink''"
    by (simp add: downKey_def)
next
  assume "t \<noteq> [] \<and> coreServer w = Some srv \<and> IsRunning srv \<and>
    GetFeature srv = Some (Manager m)"
  then have ready: "t \<noteq> []" "coreServer w = Some srv" "IsRunning srv"
    "GetFeature srv = Some (Manager m)"
    by simp_all
  note q = queryStatsInProcess_ready [OF ready]
  show "lookups (snd (queryStatsInProcess w t)) =
        [''outbound>>>'' @ t @ ''>>>traffic>>>uplink'',
         ''outbound>>>'' @ t @ ''>>>traffic>>>downlink'']"
    by (simp add: q upKey_eq downKey_eq)
  show \<open>fst (queryStatsInProcess w t) =
        Inr (''{"uplink":'' @
             FormatInt (sint (case m (''outbound>>>'' @ t @ ''>>>traffic>>>uplink'') of
                                None \<Rightarrow> 0 | Some c \<Rightarrow> Value c)) @
             '',"downlink":'' @
             FormatInt (sint (case m (''outbound>>>'' @ t @ ''>>>traffic>>>downlink'') of
                                None \<Rightarrow> 0 | Some c \<Rightarrow> Value c)) @
             ''}'')\<close>
    by (simp add: q upKey_eq downKey_eq)
  assume same: "m' (''outbound>>>'' @ t @ ''>>>traffic>>>uplink'') =
         m (''outbound>>>'' @ t @ ''>>>traffic>>>uplink'') \<and>
       m' (''outbound>>>'' @ t @ ''>>>traffic>>>downlink'') =
         m (''outbound>>>'' @ t @ ''>>>traffic>>>downlink'')"
  have \<open>queryStatsInProcess
           (w\<lparr>coreServer := Some (srv\<lparr>GetFeature := Some (Manager m')\<rparr>)\<rparr>) t =
        (Inr (''{"uplink":'' @
              FormatInt (sint (case m' (upKey t) of None \<Rightarrow> 0 | Some c \<Rightarrow> Value c)) @
              '',"downlink":'' @
              FormatInt (sint (case m' (downKey t) of None \<Rightarrow> 0 | Some c \<Rightarrow> Value c)) @
              ''}''),
         [CallIsRunning, CallGetFeature, CallGetCounter (upKey t), CallGetCounter (downKey t)] @
         (if m' (upKey t) \<noteq> None then [CallValue (upKey t)] else []) @
         (if m' (downKey t) \<noteq> None then [CallValue (downKey t)] else []))\<close>
    using ready
      queryStatsInProcess_ready [of t
        "w\<lparr>coreServer := Some (srv\<lparr>GetFeature := Some (Manager m')\<rparr>)\<rparr>"
        "srv\<lparr>GetFeature := Some (Manager m')\<rparr>" m']
    by simp
  moreover from same have "m' (upKey t) = m (upKey t)" "m' (downKey t) = m (downKey t)"
    by (simp_all add: upKey_eq downKey_eq)
  ultimately show "queryStatsInProcess
           (w\<lparr>coreServer := Some (srv\<lparr>GetFeature := Some (Manager m')\<rparr>)\<rparr>) t =
         queryStatsInProcess w t"
    by (simp add: q)
qed

text \<open>The tag \<^verbatim>\<open>proxy\<close> on a registry that also holds counters under five similar
  names.\<close>

theorem lookup_keys_proxy:
  \<open>queryStatsInProcess
     (core True (Some (Manager (counters
        [(''outbound>>>proxy>>>traffic>>>uplink'', 1500),
         (''outbound>>>proxy>>>traffic>>>downlink'', 98000),
         (''outbound>>>proxy>>>traffic>>>uplink '', 1),
         (''inbound>>>proxy>>>traffic>>>downlink'', 2),
         (''outbound>>>Proxy>>>traffic>>>uplink'', 3),
         (''outbound>>proxy>>traffic>>downlink'', 4),
         (''proxy'', 5)])))) ''proxy'' =
     (Inr ''{"uplink":1500,"downlink":98000}'',
      [CallIsRunning, CallGetFeature,
       CallGetCounter ''outbound>>>proxy>>>traffic>>>uplink'',
       CallGetCounter ''outbound>>>proxy>>>traffic>>>downlink'',
       CallValue ''outbound>>>proxy>>>traffic>>>uplink'',
       CallValue ''outbound>>>proxy>>>traffic>>>downlink'']) \<and>
   queryStatsInProcess
     (core True (Some (Manager (counters
        [(''outbound>>>proxy>>>traffic>>>uplink'', 1500),
         (''outbound>>>proxy>>>traffic>>>downlink'', 98000)])))) ''proxy'' =
   queryStatsInProcess
     (core True (Some (Manager (counters
        [(''outbound>>>proxy>>>traffic>>>uplink'', 1500),
         (''outbound>>>proxy>>>traffic>>>downlink'', 98000),
         (''outbound>>>proxy>>>traffic>>>uplink '', 1),
         (''inbound>>>proxy>>>traffic>>>downlink'', 2),
         (''outbound>>>Proxy>>>traffic>>>uplink'', 3),
         (''outbound>>proxy>>traffic>>downlink'', 4),
         (''proxy'', 5)])))) ''proxy''\<close>
  using lookup_keys [of
      "core True (Some (Manager (counters
        [(''outbound>>>proxy>>>traffic>>>uplink'', 1500),
         (''outbound>>>proxy>>>traffic>>>downlink'', 98000),
         (''outbound>>>proxy>>>traffic>>>uplink '', 1),
         (''inbound>>>proxy>>>traffic>>>downlink'', 2),
         (''outbound>>>Proxy>>>traffic>>>uplink'', 3),
         (''outbound>>proxy>>traffic>>downlink'', 4),
         (''proxy'', 5)])))"
      "''proxy''"
      "\<lparr>IsRunning = True, GetFeature = Some (Manager (counters
        [(''outbound>>>proxy>>>traffic>>>uplink'', 1500),
         (''outbound>>>proxy>>>traffic>>>downlink'', 98000),
         (''outbound>>>proxy>>>traffic>>>uplink '', 1),
         (''inbound>>>proxy>>>traffic>>>downlink'', 2),
         (''outbound>>>Proxy>>>traffic>>>uplink'', 3),
         (''outbound>>proxy>>traffic>>downlink'', 4),
         (''proxy'', 5)]))\<rparr>"
      "counters
        [(''outbound>>>proxy>>>traffic>>>uplink'', 1500),
         (''outbound>>>proxy>>>traffic>>>downlink'', 98000),
         (''outbound>>>proxy>>>traffic>>>uplink '', 1),
         (''inbound>>>proxy>>>traffic>>>downlink'', 2),
         (''outbound>>>Proxy>>>traffic>>>uplink'', 3),
         (''outbound>>proxy>>traffic>>downlink'', 4),
         (''proxy'', 5)]"
      "counters
        [(''outbound>>>proxy>>>traffic>>>uplink'', 1500),
         (''outbound>>>proxy>>>traffic>>>downlink'', 98000)]"]
  by (simp add: core_def counters_def queryStatsInProcess_def upKey_def downKey_def
      json_Marshal_eq FormatInt_def digits.simps digit_def)

text \<open>
  C3: on the in-process path (non-empty tag, runtime running, stats feature a manager) a
  counter that the registry does not hold counts as 0 and is no error: with the uplink
  counter absent the uplink field is 0, with the downlink counter absent the downlink
  field is 0, and with both absent the result is \<^verbatim>\<open>{"uplink":0,"downlink":0}\<close>. \<^verbatim>\<open>Value\<close>
  is called on the counters that are present only.
\<close>

theorem absent_counter_is_zero:
  assumes "t \<noteq> []" "coreServer w = Some srv" "IsRunning srv"
    "GetFeature srv = Some (Manager m)"
  shows \<open>(m (''outbound>>>'' @ t @ ''>>>traffic>>>uplink'') = None \<and>
      m (''outbound>>>'' @ t @ ''>>>traffic>>>downlink'') = Some (Counter d) \<longrightarrow>
        queryStatsInProcess w t =
          (Inr (''{"uplink":0,"downlink":'' @ FormatInt (sint d) @ ''}''),
           [CallIsRunning, CallGetFeature,
            CallGetCounter (''outbound>>>'' @ t @ ''>>>traffic>>>uplink''),
            CallGetCounter (''outbound>>>'' @ t @ ''>>>traffic>>>downlink''),
            CallValue (''outbound>>>'' @ t @ ''>>>traffic>>>downlink'')])) \<and>
    (m (''outbound>>>'' @ t @ ''>>>traffic>>>uplink'') = Some (Counter u) \<and>
      m (''outbound>>>'' @ t @ ''>>>traffic>>>downlink'') = None \<longrightarrow>
        queryStatsInProcess w t =
          (Inr (''{"uplink":'' @ FormatInt (sint u) @ '',"downlink":0}''),
           [CallIsRunning, CallGetFeature,
            CallGetCounter (''outbound>>>'' @ t @ ''>>>traffic>>>uplink''),
            CallGetCounter (''outbound>>>'' @ t @ ''>>>traffic>>>downlink''),
            CallValue (''outbound>>>'' @ t @ ''>>>traffic>>>uplink'')])) \<and>
    (m (''outbound>>>'' @ t @ ''>>>traffic>>>uplink'') = None \<and>
      m (''outbound>>>'' @ t @ ''>>>traffic>>>downlink'') = None \<longrightarrow>
        queryStatsInProcess w t =
          (Inr ''{"uplink":0,"downlink":0}'',
           [CallIsRunning, CallGetFeature,
            CallGetCounter (''outbound>>>'' @ t @ ''>>>traffic>>>uplink''),
            CallGetCounter (''outbound>>>'' @ t @ ''>>>traffic>>>downlink'')]))\<close>
  by (simp add: queryStatsInProcess_ready [OF assms] upKey_eq downKey_eq FormatInt_0)

text \<open>The three cases for the tag \<^verbatim>\<open>proxy\<close>.\<close>

theorem absent_counter_is_zero_witness:
  \<open>fst (queryStatsInProcess
      (core True (Some (Manager (counters [(''outbound>>>proxy>>>traffic>>>downlink'', 9)]))))
      ''proxy'') = Inr ''{"uplink":0,"downlink":9}'' \<and>
   fst (queryStatsInProcess
      (core True (Some (Manager (counters [(''outbound>>>proxy>>>traffic>>>uplink'', 7)]))))
      ''proxy'') = Inr ''{"uplink":7,"downlink":0}'' \<and>
   fst (queryStatsInProcess (core True (Some (Manager (counters [])))) ''proxy'') =
      Inr ''{"uplink":0,"downlink":0}''\<close>
  using
    absent_counter_is_zero [of "''proxy''"
      "core True (Some (Manager (counters [(''outbound>>>proxy>>>traffic>>>downlink'', 9)])))"
      "\<lparr>IsRunning = True, GetFeature =
          Some (Manager (counters [(''outbound>>>proxy>>>traffic>>>downlink'', 9)]))\<rparr>"
      "counters [(''outbound>>>proxy>>>traffic>>>downlink'', 9)]" 9 0]
    absent_counter_is_zero [of "''proxy''"
      "core True (Some (Manager (counters [(''outbound>>>proxy>>>traffic>>>uplink'', 7)])))"
      "\<lparr>IsRunning = True, GetFeature =
          Some (Manager (counters [(''outbound>>>proxy>>>traffic>>>uplink'', 7)]))\<rparr>"
      "counters [(''outbound>>>proxy>>>traffic>>>uplink'', 7)]" 0 7]
    absent_counter_is_zero [of "''proxy''" "core True (Some (Manager (counters [])))"
      "\<lparr>IsRunning = True, GetFeature = Some (Manager (counters []))\<rparr>" "counters []" 0 0]
  by (simp add: core_def counters_def FormatInt_def digits.simps digit_def)

text \<open>
  C4: the precondition checks of the in-process path run in a fixed order and each ends
  the call with its own error: an empty tag gives \<open>InvalidArgument\<close> before the
  runtime is looked at; a runtime that is \<^verbatim>\<open>nil\<close> or not running gives \<open>NotRunning\<close>
  before the feature is asked for; an absent stats feature gives
  \<open>FeatureUnavailable\<close>; a feature that is no manager gives \<open>TypeMismatch\<close>. The
  record of calls shows that nothing after the failing check is evaluated, no counter
  lookup in particular. An identifier that is empty after trimming, such as \<^verbatim>\<open>""\<close> and
  \<^verbatim>\<open>"   "\<close>, fails with \<open>InvalidArgument\<close>, and the four messages differ.
\<close>

theorem precondition_checks:
  "queryStatsInProcess w [] = (Inl InvalidArgument, []) \<and>
   (t \<noteq> [] \<and> coreServer w = None \<longrightarrow>
      queryStatsInProcess w t = (Inl NotRunning, [])) \<and>
   (t \<noteq> [] \<and> coreServer w = Some srv \<and> \<not> IsRunning srv \<longrightarrow>
      queryStatsInProcess w t = (Inl NotRunning, [CallIsRunning])) \<and>
   (t \<noteq> [] \<and> coreServer w = Some srv \<and> IsRunning srv \<and> GetFeature srv = None \<longrightarrow>
      queryStatsInProcess w t = (Inl FeatureUnavailable, [CallIsRunning, CallGetFeature])) \<and>
   (t \<noteq> [] \<and> coreServer w = Some srv \<and> IsRunning srv \<and>
    GetFeature srv = Some NotManager \<longrightarrow>
      queryStatsInProcess w t = (Inl TypeMismatch, [CallIsRunning, CallGetFeature])) \<and>
   (\<not> Contains s ''://'' \<and> TrimSpace s = [] \<longrightarrow>
      QueryStats w s = (Inl InvalidArgument, [])) \<and>
   QueryStats w '''' = (Inl InvalidArgument, []) \<and>
   QueryStats w ''   '' = (Inl InvalidArgument, []) \<and>
   distinct (map Error [InvalidArgument, NotRunning, FeatureUnavailable, TypeMismatch])"
  by (simp add: queryStatsInProcess_def QueryStats_def QueryStatsByTag_def
      TrimSpace_Nil TrimSpace_blank)

text \<open>One world for each failing check, and an identifier of a tab, a space and a
  newline.\<close>

theorem precondition_checks_witness:
  "queryStatsInProcess noCore ''proxy'' = (Inl NotRunning, []) \<and>
   queryStatsInProcess (core False None) ''proxy'' = (Inl NotRunning, [CallIsRunning]) \<and>
   queryStatsInProcess (core True None) ''proxy'' =
     (Inl FeatureUnavailable, [CallIsRunning, CallGetFeature]) \<and>
   queryStatsInProcess (core True (Some NotManager)) ''proxy'' =
     (Inl TypeMismatch, [CallIsRunning, CallGetFeature]) \<and>
   QueryStats (core True (Some (Manager (counters [])))) [CHR 0x09, CHR 0x20, CHR 0x0A] =
     (Inl InvalidArgument, [])"
  using
    precondition_checks [of noCore "''proxy''"]
    precondition_checks [of "core False None" "''proxy''"
      "\<lparr>IsRunning = False, GetFeature = None\<rparr>"]
    precondition_checks [of "core True None" "''proxy''"
      "\<lparr>IsRunning = True, GetFeature = None\<rparr>"]
    precondition_checks [of "core True (Some NotManager)" "''proxy''"
      "\<lparr>IsRunning = True, GetFeature = Some NotManager\<rparr>"]
    precondition_checks [of "core True (Some (Manager (counters [])))" "''proxy''"
      "\<lparr>IsRunning = True, GetFeature = Some (Manager (counters []))\<rparr>"
      "[CHR 0x09, CHR 0x20, CHR 0x0A]"]
  by (simp add: core_def noCore_def TrimSpace_def TrimLeft.simps TrimRight.simps
      leadingSpace_def trailingSpace_def asciiSpace_def)

text \<open>
  C5: \<^verbatim>\<open>QueryStats\<close> dispatches on one test, whether the identifier contains \<^verbatim>\<open>://\<close>
  somewhere. If it does, the HTTP path is taken: the first call is the GET of the
  identifier as given, the runtime is never asked, and the result does not depend on
  \<^verbatim>\<open>coreServer\<close>. If it does not, the in-process path is taken on the trimmed
  identifier, and the network is not touched.
\<close>

theorem dispatch:
  "(Contains s ''://'' \<longleftrightarrow> (\<exists>p q. s = p @ ''://'' @ q)) \<and>
   (Contains s ''://'' \<longrightarrow>
      QueryStats w s = queryStatsHTTP w s \<and>
      (\<exists>rest. snd (QueryStats w s) = CallHTTPGet s # rest) \<and>
      filter coreCall (snd (QueryStats w s)) = [] \<and>
      QueryStats (w\<lparr>coreServer := c\<rparr>) s = QueryStats w s) \<and>
   (\<not> Contains s ''://'' \<longrightarrow>
      QueryStats w s = queryStatsInProcess w (TrimSpace s) \<and>
      filter httpCall (snd (QueryStats w s)) = [] \<and>
      QueryStats (w\<lparr>http_Get := n\<rparr>) s = QueryStats w s)"
proof (intro conjI impI)
  show "Contains s ''://'' \<longleftrightarrow> (\<exists>p q. s = p @ ''://'' @ q)"
    by (rule Contains_iff)
next
  assume url: "Contains s ''://''"
  then show "QueryStats w s = queryStatsHTTP w s"
    by (simp add: QueryStats_def)
  with queryStatsHTTP_calls [of w s]
  show "\<exists>rest. snd (QueryStats w s) = CallHTTPGet s # rest"
    and "filter coreCall (snd (QueryStats w s)) = []"
    by simp_all
  from url show "QueryStats (w\<lparr>coreServer := c\<rparr>) s = QueryStats w s"
    by (simp add: QueryStats_def queryStatsHTTP_def)
next
  assume tag: "\<not> Contains s ''://''"
  then show "QueryStats w s = queryStatsInProcess w (TrimSpace s)"
    by (rule QueryStats_tag)
  then show "filter httpCall (snd (QueryStats w s)) = []"
    by (simp add: queryStatsInProcess_calls)
  from tag show "QueryStats (w\<lparr>http_Get := n\<rparr>) s = QueryStats w s"
    by (simp add: QueryStats_def queryStatsInProcess_def)
qed

text \<open>With no core instance at all: a metrics URL, a string that is no URL but holds
  \<^verbatim>\<open>://\<close>, and a string with a single slash.\<close>

theorem dispatch_witness:
  "QueryStats noCore ''http://example.test/debug/vars'' =
     (Inr ''foo=1'', [CallHTTPGet ''http://example.test/debug/vars'', CallReadAll, CallClose]) \<and>
   QueryStats noCore '' ://'' = (Inl (TransportError ''no such host''), [CallHTTPGet '' ://'']) \<and>
   QueryStats noCore ''http:/example.test'' = (Inl NotRunning, [])"
  using dispatch [of "''http://example.test/debug/vars''" noCore]
    dispatch [of "'' ://''" noCore]
    dispatch [of "''http:/example.test''" noCore]
  by (simp add: noCore_def queryStatsHTTP_def network_def queryStatsInProcess_def
      TrimSpace_def TrimLeft.simps TrimRight.simps
      leadingSpace_def trailingSpace_def asciiSpace_def spaceRunes_def)

text \<open>
  C6: for every tag, that is an identifier without \<^verbatim>\<open>://\<close> that is not empty after
  trimming white space, when the runtime is \<^verbatim>\<open>nil\<close> or reports not running,
  \<^verbatim>\<open>QueryStats\<close> fails with \<open>NotRunning\<close>, whatever the tag is.
\<close>

theorem not_running:
  assumes "\<not> Contains s ''://''" "TrimSpace s \<noteq> []"
    and "coreServer w = None \<or> (\<exists>srv. coreServer w = Some srv \<and> \<not> IsRunning srv)"
  shows "fst (QueryStats w s) = Inl NotRunning"
  using assms by (auto simp: QueryStats_def queryStatsInProcess_def)

text \<open>The tag \<^verbatim>\<open>proxy\<close> before any instance exists, and on a stopped instance.\<close>

theorem not_running_witness:
  "fst (QueryStats noCore ''proxy'') = Inl NotRunning \<and>
   fst (QueryStats (core False (Some (Manager (counters [])))) ''proxy'') = Inl NotRunning"
  using not_running [of "''proxy''" noCore]
    not_running [of "''proxy''" "core False (Some (Manager (counters [])))"]
  by (simp add: core_def noCore_def TrimSpace_proxy)

text \<open>
  C7: on the HTTP path, when the GET succeeds and the body can be read, the result is
  the body, byte for byte; when the GET fails, or the body cannot be read, the result
  is \<open>TransportError\<close> with the underlying error, and the path fails in no other way.
\<close>

theorem http_path:
  assumes "Contains s ''://''"
  shows "(http_Get w s = Inr resp \<and> Body resp = Inr body \<longrightarrow>
            QueryStats w s = (Inr body, [CallHTTPGet s, CallReadAll, CallClose])) \<and>
         (http_Get w s = Inl cause \<longrightarrow>
            QueryStats w s = (Inl (TransportError cause), [CallHTTPGet s])) \<and>
         (http_Get w s = Inr resp \<and> Body resp = Inl cause \<longrightarrow>
            QueryStats w s =
              (Inl (TransportError cause), [CallHTTPGet s, CallReadAll, CallClose])) \<and>
         ((\<exists>e. fst (QueryStats w s) = Inl (TransportError e)) \<longleftrightarrow>
            (\<exists>e. http_Get w s = Inl e) \<or> (\<exists>r e. http_Get w s = Inr r \<and> Body r = Inl e)) \<and>
         ((\<exists>e. fst (QueryStats w s) = Inl e) \<longleftrightarrow>
            (\<exists>e. fst (QueryStats w s) = Inl (TransportError e)))"
proof -
  have q: "QueryStats w s = queryStatsHTTP w s"
    using assms by (rule QueryStats_url)
  show ?thesis
    unfolding q
    by (cases "http_Get w s"; cases "Body (projr (http_Get w s))")
       (auto simp: queryStatsHTTP_def)
qed

text \<open>The body \<^verbatim>\<open>foo=1\<close>, a body that breaks off, and an unknown host.\<close>

theorem http_path_witness:
  "fst (QueryStats noCore ''http://example.test/debug/vars'') = Inr ''foo=1'' \<and>
   fst (QueryStats noCore ''http://example.test/cut'') =
     Inl (TransportError ''unexpected EOF'') \<and>
   fst (QueryStats noCore ''http://nowhere.test/'') = Inl (TransportError ''no such host'')"
  using
    http_path [of "''http://example.test/debug/vars''" noCore
      "\<lparr>StatusCode = 200, Body = Inr ''foo=1''\<rparr>" "''foo=1''"]
    http_path [of "''http://example.test/cut''" noCore
      "\<lparr>StatusCode = 200, Body = Inl ''unexpected EOF''\<rparr>" _ "''unexpected EOF''"]
    http_path [of "''http://nowhere.test/''" noCore _ _ "''no such host''"]
  by (simp add: noCore_def network_def)

text \<open>
  C8: the in-process path only reads. It calls neither \<^verbatim>\<open>Set\<close> nor \<^verbatim>\<open>Add\<close>, so the
  world after the query is the world before it, and a second query right after the
  first returns the same payload; the same holds for \<^verbatim>\<open>QueryStatsByTag\<close>, and for
  \<^verbatim>\<open>QueryStats\<close> on an identifier without \<^verbatim>\<open>://\<close>.
\<close>

theorem query_reads_only:
  "filter writes (snd (queryStatsInProcess w t)) = [] \<and>
   after w (queryStatsInProcess w t) = w \<and>
   twice queryStatsInProcess w t =
     (fst (queryStatsInProcess w t), fst (queryStatsInProcess w t), w) \<and>
   twice QueryStatsByTag w t = (fst (QueryStatsByTag w t), fst (QueryStatsByTag w t), w) \<and>
   (\<not> Contains t ''://'' \<longrightarrow>
      twice QueryStats w t = (fst (QueryStats w t), fst (QueryStats w t), w))"
proof (intro conjI impI)
  show "filter writes (snd (queryStatsInProcess w t)) = []"
    by (simp add: queryStatsInProcess_calls)
  show "after w (queryStatsInProcess w t) = w"
    by (rule after_queryStatsInProcess)
  show "twice queryStatsInProcess w t =
     (fst (queryStatsInProcess w t), fst (queryStatsInProcess w t), w)"
    by (rule twice_queryStatsInProcess)
  show "twice QueryStatsByTag w t = (fst (QueryStatsByTag w t), fst (QueryStatsByTag w t), w)"
    by (simp add: twice_def Let_def QueryStatsByTag_def after_queryStatsInProcess)
next
  assume "\<not> Contains t ''://''"
  then have "\<And>v. QueryStats v t = queryStatsInProcess v (TrimSpace t)"
    by (rule QueryStats_tag)
  then show "twice QueryStats w t = (fst (QueryStats w t), fst (QueryStats w t), w)"
    by (simp add: twice_def Let_def after_queryStatsInProcess)
qed

text \<open>Two queries for the tag \<^verbatim>\<open>proxy\<close>.\<close>

theorem query_reads_only_witness:
  \<open>twice QueryStats
     (core True (Some (Manager (counters
        [(''outbound>>>proxy>>>traffic>>>uplink'', 1500),
         (''outbound>>>proxy>>>traffic>>>downlink'', 98000)])))) ''proxy'' =
     (Inr ''{"uplink":1500,"downlink":98000}'', Inr ''{"uplink":1500,"downlink":98000}'',
      core True (Some (Manager (counters
        [(''outbound>>>proxy>>>traffic>>>uplink'', 1500),
         (''outbound>>>proxy>>>traffic>>>downlink'', 98000)]))))\<close>
  using query_reads_only [of
      "core True (Some (Manager (counters
        [(''outbound>>>proxy>>>traffic>>>uplink'', 1500),
         (''outbound>>>proxy>>>traffic>>>downlink'', 98000)])))" "''proxy''"]
  by (simp add: QueryStats_def TrimSpace_proxy queryStatsInProcess_def core_def counters_def
      upKey_def downKey_def json_Marshal_eq FormatInt_def digits.simps digit_def)

text \<open>
  C9: \<^verbatim>\<open>QueryStatsByTag\<close> is the in-process path on the trimmed input, for every input:
  the tag it hands over is a piece of the input with no white space left at either end
  (\<^verbatim>\<open>" proxy  "\<close> and \<^verbatim>\<open>"proxy"\<close> between Unicode spaces both give \<^verbatim>\<open>proxy\<close>, inner
  spaces stay). It agrees with \<^verbatim>\<open>QueryStats\<close> on every input without \<^verbatim>\<open>://\<close>; on an
  input with \<^verbatim>\<open>://\<close>, \<^verbatim>\<open>QueryStats\<close> issues the GET and \<^verbatim>\<open>QueryStatsByTag\<close> does not,
  but reads the counters named after the whole trimmed string.
\<close>

theorem QueryStatsByTag_in_process:
  \<open>QueryStatsByTag w s = queryStatsInProcess w (TrimSpace s) \<and>
   leadingSpace (TrimSpace s) = 0 \<and> trailingSpace (TrimSpace s) = 0 \<and>
   (\<exists>pre post. s = pre @ TrimSpace s @ post) \<and>
   QueryStatsByTag w '' proxy  '' = queryStatsInProcess w ''proxy'' \<and>
   QueryStatsByTag w
     ([CHR 0x09, CHR 0xC2, CHR 0xA0] @ ''proxy'' @ [CHR 0xE3, CHR 0x80, CHR 0x80, CHR 0x0A]) =
     queryStatsInProcess w ''proxy'' \<and>
   QueryStatsByTag w '' my proxy '' = queryStatsInProcess w ''my proxy'' \<and>
   QueryStatsByTag w '' a://b '' = queryStatsInProcess w ''a://b'' \<and>
   filter httpCall (snd (QueryStatsByTag w s)) = [] \<and>
   (\<not> Contains s ''://'' \<longrightarrow> QueryStatsByTag w s = QueryStats w s) \<and>
   (Contains s ''://'' \<longrightarrow>
      CallHTTPGet s \<in> set (snd (QueryStats w s)) \<and>
      CallHTTPGet s \<notin> set (snd (QueryStatsByTag w s))) \<and>
   (TrimSpace s \<noteq> [] \<and> coreServer w = Some srv \<and> IsRunning srv \<and>
    GetFeature srv = Some (Manager m) \<longrightarrow>
      lookups (snd (QueryStatsByTag w s)) =
        [''outbound>>>'' @ TrimSpace s @ ''>>>traffic>>>uplink'',
         ''outbound>>>'' @ TrimSpace s @ ''>>>traffic>>>downlink''] \<and>
      fst (QueryStatsByTag w s) =
        Inr (''{"uplink":'' @
             FormatInt (sint (case m (''outbound>>>'' @ TrimSpace s @ ''>>>traffic>>>uplink'') of
                                None \<Rightarrow> 0 | Some c \<Rightarrow> Value c)) @
             '',"downlink":'' @
             FormatInt (sint (case m (''outbound>>>'' @ TrimSpace s @ ''>>>traffic>>>downlink'') of
                                None \<Rightarrow> 0 | Some c \<Rightarrow> Value c)) @
             ''}''))\<close>
proof (intro conjI impI)
  show eq: "QueryStatsByTag w s = queryStatsInProcess w (TrimSpace s)"
    by (simp add: QueryStatsByTag_def)
  show "leadingSpace (TrimSpace s) = 0" and "trailingSpace (TrimSpace s) = 0"
    by (simp_all add: TrimSpace_trimmed)
  show "\<exists>pre post. s = pre @ TrimSpace s @ post"
    by (rule TrimSpace_within)
  show "QueryStatsByTag w '' proxy  '' = queryStatsInProcess w ''proxy''"
    by (simp only: QueryStatsByTag_def TrimSpace_padded)
  show "QueryStatsByTag w
     ([CHR 0x09, CHR 0xC2, CHR 0xA0] @ ''proxy'' @ [CHR 0xE3, CHR 0x80, CHR 0x80, CHR 0x0A]) =
     queryStatsInProcess w ''proxy''"
    by (simp only: QueryStatsByTag_def TrimSpace_unicode)
  show "QueryStatsByTag w '' my proxy '' = queryStatsInProcess w ''my proxy''"
    by (simp only: QueryStatsByTag_def TrimSpace_inner)
  show "QueryStatsByTag w '' a://b '' = queryStatsInProcess w ''a://b''"
    by (simp only: QueryStatsByTag_def TrimSpace_padded_url)
  show no_http: "filter httpCall (snd (QueryStatsByTag w s)) = []"
    by (simp add: eq queryStatsInProcess_calls)
  {
    assume "\<not> Contains s ''://''"
    then show "QueryStatsByTag w s = QueryStats w s"
      by (simp add: eq QueryStats_tag)
  next
    assume url: "Contains s ''://''"
    from queryStatsHTTP_calls [of w s] obtain rest
      where "snd (queryStatsHTTP w s) = CallHTTPGet s # rest" by blast
    with url show "CallHTTPGet s \<in> set (snd (QueryStats w s))"
      by (simp add: QueryStats_url)
    show "CallHTTPGet s \<notin> set (snd (QueryStatsByTag w s))"
    proof
      assume "CallHTTPGet s \<in> set (snd (QueryStatsByTag w s))"
      then have "CallHTTPGet s \<in> set (filter httpCall (snd (QueryStatsByTag w s)))"
        by simp
      with no_http show False by simp
    qed
  next
    assume "TrimSpace s \<noteq> [] \<and> coreServer w = Some srv \<and> IsRunning srv \<and>
      GetFeature srv = Some (Manager m)"
    then have ready: "TrimSpace s \<noteq> []" "coreServer w = Some srv" "IsRunning srv"
      "GetFeature srv = Some (Manager m)"
      by simp_all
    note q = queryStatsInProcess_ready [OF ready]
    show "lookups (snd (QueryStatsByTag w s)) =
        [''outbound>>>'' @ TrimSpace s @ ''>>>traffic>>>uplink'',
         ''outbound>>>'' @ TrimSpace s @ ''>>>traffic>>>downlink'']"
      by (simp add: eq q upKey_eq downKey_eq)
    show \<open>fst (QueryStatsByTag w s) =
        Inr (''{"uplink":'' @
             FormatInt (sint (case m (''outbound>>>'' @ TrimSpace s @ ''>>>traffic>>>uplink'') of
                                None \<Rightarrow> 0 | Some c \<Rightarrow> Value c)) @
             '',"downlink":'' @
             FormatInt (sint (case m (''outbound>>>'' @ TrimSpace s @ ''>>>traffic>>>downlink'') of
                                None \<Rightarrow> 0 | Some c \<Rightarrow> Value c)) @
             ''}'')\<close>
      by (simp add: eq q upKey_eq downKey_eq)
  }
qed

text \<open>The tag \<^verbatim>\<open>proxy\<close> with white space around it, on a registry that also holds
  counters named after the untrimmed input; and a metrics URL followed by a space.\<close>

theorem QueryStatsByTag_in_process_witness:
  \<open>QueryStatsByTag
     (core True (Some (Manager (counters
        [(''outbound>>>proxy>>>traffic>>>uplink'', 1500),
         (''outbound>>>proxy>>>traffic>>>downlink'', 98000),
         (''outbound>>> proxy  >>>traffic>>>uplink'', 1),
         (''outbound>>> proxy  >>>traffic>>>downlink'', 2)])))) '' proxy  '' =
     (Inr ''{"uplink":1500,"downlink":98000}'',
      [CallIsRunning, CallGetFeature,
       CallGetCounter ''outbound>>>proxy>>>traffic>>>uplink'',
       CallGetCounter ''outbound>>>proxy>>>traffic>>>downlink'',
       CallValue ''outbound>>>proxy>>>traffic>>>uplink'',
       CallValue ''outbound>>>proxy>>>traffic>>>downlink'']) \<and>
   QueryStats
     (core True (Some (Manager (counters
        [(''outbound>>>proxy>>>traffic>>>uplink'', 1500),
         (''outbound>>>proxy>>>traffic>>>downlink'', 98000),
         (''outbound>>> proxy  >>>traffic>>>uplink'', 1),
         (''outbound>>> proxy  >>>traffic>>>downlink'', 2)])))) '' proxy  '' =
   QueryStatsByTag
     (core True (Some (Manager (counters
        [(''outbound>>>proxy>>>traffic>>>uplink'', 1500),
         (''outbound>>>proxy>>>traffic>>>downlink'', 98000),
         (''outbound>>> proxy  >>>traffic>>>uplink'', 1),
         (''outbound>>> proxy  >>>traffic>>>downlink'', 2)])))) '' proxy  '' \<and>
   QueryStatsByTag
     (core True (Some (Manager (counters
        [(''outbound>>>http://example.test/debug/vars>>>traffic>>>uplink'', 11),
         (''outbound>>>http://example.test/debug/vars>>>traffic>>>downlink'', 22)]))))
     ''http://example.test/debug/vars '' =
     (Inr ''{"uplink":11,"downlink":22}'',
      [CallIsRunning, CallGetFeature,
       CallGetCounter ''outbound>>>http://example.test/debug/vars>>>traffic>>>uplink'',
       CallGetCounter ''outbound>>>http://example.test/debug/vars>>>traffic>>>downlink'',
       CallValue ''outbound>>>http://example.test/debug/vars>>>traffic>>>uplink'',
       CallValue ''outbound>>>http://example.test/debug/vars>>>traffic>>>downlink'']) \<and>
   QueryStats
     (core True (Some (Manager (counters
        [(''outbound>>>http://example.test/debug/vars>>>traffic>>>uplink'', 11),
         (''outbound>>>http://example.test/debug/vars>>>traffic>>>downlink'', 22)]))))
     ''http://example.test/debug/vars '' =
     (Inl (TransportError ''no such host''), [CallHTTPGet ''http://example.test/debug/vars ''])\<close>
  using
    QueryStatsByTag_in_process [of
      "core True (Some (Manager (counters
        [(''outbound>>>proxy>>>traffic>>>uplink'', 1500),
         (''outbound>>>proxy>>>traffic>>>downlink'', 98000),
         (''outbound>>> proxy  >>>traffic>>>uplink'', 1),
         (''outbound>>> proxy  >>>traffic>>>downlink'', 2)])))"
      "'' proxy  ''"
      "\<lparr>IsRunning = True, GetFeature = Some (Manager (counters
        [(''outbound>>>proxy>>>traffic>>>uplink'', 1500),
         (''outbound>>>proxy>>>traffic>>>downlink'', 98000),
         (''outbound>>> proxy  >>>traffic>>>uplink'', 1),
         (''outbound>>> proxy  >>>traffic>>>downlink'', 2)]))\<rparr>"
      "counters
        [(''outbound>>>proxy>>>traffic>>>uplink'', 1500),
         (''outbound>>>proxy>>>traffic>>>downlink'', 98000),
         (''outbound>>> proxy  >>>traffic>>>uplink'', 1),
         (''outbound>>> proxy  >>>traffic>>>downlink'', 2)]"]
    QueryStatsByTag_in_process [of
      "core True (Some (Manager (counters
        [(''outbound>>>http://example.test/debug/vars>>>traffic>>>uplink'', 11),
         (''outbound>>>http://example.test/debug/vars>>>traffic>>>downlink'', 22)])))"
      "''http://example.test/debug/vars ''"
      "\<lparr>IsRunning = True, GetFeature = Some (Manager (counters
        [(''outbound>>>http://example.test/debug/vars>>>traffic>>>uplink'', 11),
         (''outbound>>>http://example.test/debug/vars>>>traffic>>>downlink'', 22)]))\<rparr>"
      "counters
        [(''outbound>>>http://example.test/debug/vars>>>traffic>>>uplink'', 11),
         (''outbound>>>http://example.test/debug/vars>>>traffic>>>downlink'', 22)]"]
  by (simp add: TrimSpace_padded TrimSpace_url_padded QueryStats_def QueryStatsByTag_def
      queryStatsHTTP_def queryStatsInProcess_def core_def counters_def network_def
      upKey_def downKey_def json_Marshal_eq FormatInt_def digits.simps digit_def)

text \<open>
  C10: the HTTP path never looks at the status code: a response with a readable body
  is returned as a success whatever its status, 404 and 500 included.
\<close>

theorem status_code_ignored:
  assumes "Contains s ''://''"
    and "http_Get w s = Inr \<lparr>StatusCode = code, Body = Inr body\<rparr>"
  shows "QueryStats w s = (Inr body, [CallHTTPGet s, CallReadAll, CallClose])"
  using assms by (simp add: QueryStats_url queryStatsHTTP_def)

text \<open>A 404 and a 500 response.\<close>

theorem status_code_ignored_witness:
  "QueryStats noCore ''http://example.test/missing'' =
     (Inr ''404 page not found'',
      [CallHTTPGet ''http://example.test/missing'', CallReadAll, CallClose]) \<and>
   QueryStats noCore ''http://example.test/crash'' =
     (Inr ''internal error'',
      [CallHTTPGet ''http://example.test/crash'', CallReadAll, CallClose])"
  using
    status_code_ignored [of "''http://example.test/missing''" noCore 404 "''404 page not found''"]
    status_code_ignored [of "''http://example.test/crash''" noCore 500 "''internal error''"]
  by (simp add: noCore_def network_def)

end
